theory Spec2Isabelle
  imports Main
begin

text \<open>
  A model of \<open>src/main.py\<close> of cazira, the script that downloads the README of each
  repository of a list when the repository's license is allow-listed. The functions
  \<open>get_repo_info\<close>, \<open>download_readme\<close>, \<open>save_readme\<close> and \<open>process_repositories\<close> are
  state-passing functions over a record of what the script can change (the log, the
  requests issued, the file system); what the network and the file system answer is a
  parameter. An exception is a result of its own, so that a run that raises is told
  apart from one that returns.
\<close>

section \<open>Python strings\<close>

text \<open>
  A Python \<open>str\<close> is modelled as a \<^typ>\<open>string\<close>; a \<^typ>\<open>char\<close> stands for a code
  point below 256 (Latin-1). The string methods used by \<open>src/main.py\<close> are given on that
  range: \<open>str.strip\<close>, \<open>str.lower\<close>, \<open>str.split\<close> with a one-character separator,
  \<open>str.replace\<close> and the decimal \<open>str\<close> of an integer.
\<close>

definition isspace :: "char \<Rightarrow> bool" where
  \<comment> \<open>the whitespace code points below 256: TAB..CR, FS..US, space, NEL, NBSP\<close>
  "isspace c =
     (let n = (of_char c :: nat)
      in (9 \<le> n \<and> n \<le> 13) \<or> (28 \<le> n \<and> n \<le> 32) \<or> n = 133 \<or> n = 160)"

definition str_strip :: "string \<Rightarrow> string" where
  "str_strip s = rev (dropWhile isspace (rev (dropWhile isspace s)))"

definition lower_char :: "char \<Rightarrow> char" where
  \<comment> \<open>\<open>A..Z\<close> and the Latin-1 capitals \<open>0xC0..0xDE\<close> (without the sign \<open>0xD7\<close>) move up by 32\<close>
  "lower_char c =
     (let n = (of_char c :: nat)
      in if (65 \<le> n \<and> n \<le> 90) \<or> (192 \<le> n \<and> n \<le> 222 \<and> n \<noteq> 215)
         then char_of (n + 32) else c)"

definition str_lower :: "string \<Rightarrow> string" where
  "str_lower s = map lower_char s"

fun str_split :: "char \<Rightarrow> string \<Rightarrow> string list" where
  "str_split sep [] = [[]]"
| "str_split sep (c # cs) =
     (if c = sep then [] # str_split sep cs
      else (case str_split sep cs of
              [] \<Rightarrow> [[c]]
            | p # ps \<Rightarrow> (c # p) # ps))"

function str_replace :: "string \<Rightarrow> string \<Rightarrow> string \<Rightarrow> string" where
  "str_replace old new [] = (if old = [] then new else [])"
| "str_replace old new (c # cs) =
     (if old = [] then new @ c # str_replace old new cs
      else if take (length old) (c # cs) = old
        then new @ str_replace old new (drop (length old) (c # cs))
      else c # str_replace old new cs)"
  by pat_completeness auto
termination
  by (relation "measure (\<lambda>(old, new, s). length s)") auto

fun str_nat :: "nat \<Rightarrow> string" where
  "str_nat n =
     (if n < 10 then [char_of (48 + n)]
      else str_nat (n div 10) @ [char_of (48 + n mod 10)])"

declare str_nat.simps [simp del]

definition str_int :: "int \<Rightarrow> string" where
  "str_int i = (if i < 0 then CHR ''-'' # str_nat (nat (- i)) else str_nat (nat i))"

definition quoted :: "string \<Rightarrow> string" where
  \<comment> \<open>the pattern \<open>'{x}'\<close> of the log messages\<close>
  "quoted s = CHR 0x27 # s @ [CHR 0x27]"

definition os_path_join :: "string \<Rightarrow> string \<Rightarrow> string" where
  \<comment> \<open>\<open>posixpath.join\<close> of two components\<close>
  "os_path_join a b =
     (if b \<noteq> [] \<and> hd b = CHR ''/'' then b
      else if a = [] \<or> last a = CHR ''/'' then a @ b
      else a @ ''/'' @ b)"

section \<open>JSON documents\<close>

text \<open>
  The value of \<open>response.json()\<close>. A JSON object is the list of its items; \<open>dict.get\<close> is
  \<^const>\<open>map_of\<close> on it. Numbers are integers here: only their truth value is consulted.
\<close>

datatype jvalue =
    JNull
  | JBool bool
  | JNum int
  | JStr string
  | JArr "jvalue list"
  | JObj "(string \<times> jvalue) list"

fun truthy :: "jvalue \<Rightarrow> bool" where
  "truthy JNull = False"
| "truthy (JBool b) = b"
| "truthy (JNum n) = (n \<noteq> 0)"
| "truthy (JStr s) = (s \<noteq> [])"
| "truthy (JArr xs) = (xs \<noteq> [])"
| "truthy (JObj kvs) = (kvs \<noteq> [])"

section \<open>Exceptions, the world and its answers\<close>

datatype exn =
    RequestException string
  | JSONDecodeError
  | AttributeError
  | OSError string

fun dict_get :: "jvalue \<Rightarrow> string \<Rightarrow> jvalue \<Rightarrow> exn + jvalue" where
  \<comment> \<open>\<open>d.get(key, default)\<close>: only a dict has the method\<close>
  "dict_get (JObj kvs) key dflt = Inr (case map_of kvs key of None \<Rightarrow> dflt | Some v \<Rightarrow> v)"
| "dict_get _ key dflt = Inl AttributeError"

datatype level = DEBUG | INFO | WARNING | ERROR

type_synonym headers = "(string \<times> string) list"

text \<open>
  The state the script acts on: the calls made on the logger, in order (whatever level the
  logger is configured with), the HTTP GET requests issued, in order, the directories
  created and the files written.
\<close>

record world =
  log :: "(level \<times> string) list"
  requests :: "(string \<times> headers) list"
  dirs :: "string set"
  files :: "string \<rightharpoonup> string"

record response =
  status_code :: int
  resp_text :: string  \<comment> \<open>\<open>response.text\<close>\<close>
  resp_json :: "jvalue option"  \<comment> \<open>\<open>None\<close>: \<open>response.json()\<close> raises, the body is not JSON\<close>

datatype http_outcome = Response response | TransportError string

datatype write_outcome =
    Written
  | OpenFailed string  \<comment> \<open>\<open>open\<close> raises: the file is untouched\<close>
  | WriteFailed string string
      \<comment> \<open>\<open>write\<close> or the closing flush raises: the message, and what is left in the file\<close>

text \<open>
  What the network, the file system and the interpreter answer. The answer to a request
  may depend on the requests made before it, the answer of the file system on the whole
  state. \<open>py_str\<close> is Python's \<open>str\<close> of a JSON value that is not a string.
\<close>

record env =
  requests_get :: "(string \<times> headers) list \<Rightarrow> string \<Rightarrow> headers \<Rightarrow> http_outcome"
  path_exists :: "world \<Rightarrow> string \<Rightarrow> bool"
  makedirs_error :: "world \<Rightarrow> string \<Rightarrow> string option"
  write_result :: "world \<Rightarrow> string \<Rightarrow> string \<Rightarrow> write_outcome"
  py_str :: "jvalue \<Rightarrow> string"

datatype 'a outcome = Return 'a world | Raise exn world

definition logger :: "level \<Rightarrow> string \<Rightarrow> world \<Rightarrow> world" where
  "logger lvl msg w = w\<lparr>log := log w @ [(lvl, msg)]\<rparr>"

section \<open>The script\<close>

definition GITHUB_API_URL :: string where
  "GITHUB_API_URL = ''https://api.github.com/repos/''"

definition GITHUB_RAW_URL :: string where
  "GITHUB_RAW_URL = ''https://raw.githubusercontent.com/''"

definition ALLOWED_LICENSES :: "string list" where
  "ALLOWED_LICENSES = [''mit license'', ''apache license 2.0'', ''bsd license'']"

definition auth_headers :: "string option \<Rightarrow> headers" where
  \<comment> \<open>\<open>headers = {}; if token: headers["Authorization"] = f"token {token}"\<close>\<close>
  "auth_headers token =
     (case token of
        None \<Rightarrow> []
      | Some t \<Rightarrow> if t = [] then [] else [(''Authorization'', ''token '' @ t)])"

definition repo_api_url :: "string \<Rightarrow> string \<Rightarrow> string" where
  "repo_api_url owner repo = GITHUB_API_URL @ owner @ ''/'' @ repo"

definition format_value :: "env \<Rightarrow> jvalue \<Rightarrow> string" where
  \<comment> \<open>\<open>f"{v}"\<close>\<close>
  "format_value E v = (case v of JStr s \<Rightarrow> s | _ \<Rightarrow> py_str E v)"

definition readme_raw_url :: "string \<Rightarrow> string \<Rightarrow> string \<Rightarrow> string" where
  "readme_raw_url owner repo branch =
     GITHUB_RAW_URL @ owner @ ''/'' @ repo @ ''/'' @ branch @ ''/README.md''"

definition get_repo_info ::
  "env \<Rightarrow> string \<Rightarrow> string \<Rightarrow> string option \<Rightarrow> world \<Rightarrow> jvalue outcome" where
  \<comment> \<open>Python's \<open>None\<close> is \<^const>\<open>JNull\<close>\<close>
  "get_repo_info E owner repo token w =
     (let url = repo_api_url owner repo;
          hdrs = auth_headers token;
          w1 = logger DEBUG (''Fetching data from URL: '' @ url) w;
          w2 = w1\<lparr>requests := requests w1 @ [(url, hdrs)]\<rparr>
      in case requests_get E (requests w1) url hdrs of
           TransportError msg \<Rightarrow> Raise (RequestException msg) w2
         | Response r \<Rightarrow>
             if status_code r = 200 then
               (let w3 = logger INFO
                          (''Successfully fetched data for repository: '' @ owner @ ''/'' @ repo) w2
                in case resp_json r of
                     None \<Rightarrow> Raise JSONDecodeError w3
                   | Some v \<Rightarrow> Return v w3)
             else
               Return JNull
                 (logger ERROR
                    (''Failed to fetch data for repository: '' @ owner @ ''/'' @ repo
                       @ ''. Status Code: '' @ str_int (status_code r)
                       @ ''. Response: '' @ resp_text r) w2))"

definition download_readme ::
  "env \<Rightarrow> string \<Rightarrow> string \<Rightarrow> string \<Rightarrow> string option \<Rightarrow> world \<Rightarrow> string option outcome"
where
  "download_readme E owner repo default_branch token w =
     (let url = readme_raw_url owner repo default_branch;
          hdrs = auth_headers token;
          w1 = logger DEBUG (''Downloading README.md from URL: '' @ url) w;
          w2 = w1\<lparr>requests := requests w1 @ [(url, hdrs)]\<rparr>
      in case requests_get E (requests w1) url hdrs of
           TransportError msg \<Rightarrow> Raise (RequestException msg) w2
         | Response r \<Rightarrow>
             if status_code r = 200 then
               Return (Some (resp_text r))
                 (logger INFO
                    (''Successfully downloaded README.md for repository: ''
                       @ owner @ ''/'' @ repo) w2)
             else
               Return None
                 (logger ERROR
                    (''Failed to download README.md for repository: '' @ owner @ ''/'' @ repo
                       @ ''. Status Code: '' @ str_int (status_code r)) w2))"

definition sanitized_filename :: "string \<Rightarrow> string" where
  "sanitized_filename filename = str_replace ''/'' ''_'' filename"

definition file_path :: "string \<Rightarrow> string \<Rightarrow> string" where
  "file_path directory filename = os_path_join directory (sanitized_filename filename @ ''.md'')"

definition save_readme :: "env \<Rightarrow> string \<Rightarrow> string \<Rightarrow> string \<Rightarrow> world \<Rightarrow> unit outcome" where
  "save_readme E content filename directory w =
     (case (if \<not> path_exists E w directory then
              (case makedirs_error E w directory of
                 Some msg \<Rightarrow> Inl (OSError msg)
               | None \<Rightarrow>
                   Inr (logger DEBUG (''Created directory: '' @ directory)
                          (w\<lparr>dirs := insert directory (dirs w)\<rparr>)))
            else Inr w) of
        Inl e \<Rightarrow> Raise e w
      | Inr w1 \<Rightarrow>
          (let p = file_path directory filename
           in case write_result E w1 p content of
                Written \<Rightarrow>
                  Return () (logger INFO (''README.md saved: '' @ p)
                               (w1\<lparr>files := (files w1)(p \<mapsto> content)\<rparr>))
              | OpenFailed msg \<Rightarrow>
                  Return () (logger ERROR
                               (''Failed to save README.md file '' @ p @ ''. Error: '' @ msg) w1)
              | WriteFailed msg left \<Rightarrow>
                  Return () (logger ERROR
                               (''Failed to save README.md file '' @ p @ ''. Error: '' @ msg)
                               (w1\<lparr>files := (files w1)(p \<mapsto> left)\<rparr>))))"

text \<open>
  Lines 206 to 217 of \<open>process_repositories\<close>, the license gate: \<open>True\<close> lets the
  repository through, \<open>False\<close> is the \<open>continue\<close>.
\<close>

definition check_license :: "string \<Rightarrow> jvalue \<Rightarrow> world \<Rightarrow> bool outcome" where
  "check_license full_repo repo_data w =
     (case dict_get repo_data ''license'' JNull of
        Inl e \<Rightarrow> Raise e w
      | Inr license_info \<Rightarrow>
          if \<not> truthy license_info then
            Return False
              (logger WARNING
                 (''Repository '' @ quoted full_repo @ '' does not have a license. Skipping.'') w)
          else
            (case dict_get license_info ''name'' (JStr []) of
               Inl e \<Rightarrow> Raise e w
             | Inr (JStr name) \<Rightarrow>
                 (let license_name = str_lower name
                  in if license_name \<notin> set ALLOWED_LICENSES then
                       Return False
                         (logger WARNING
                            (''Repository '' @ quoted full_repo @ '' has a license ''
                               @ quoted license_name @ '' which is not allowed. Skipping.'') w)
                     else Return True w)
             | Inr _ \<Rightarrow> Raise AttributeError w))"

text \<open>The body of the loop of \<open>process_repositories\<close>, for one entry of the list.\<close>

definition process_repository ::
  "env \<Rightarrow> string \<Rightarrow> string option \<Rightarrow> string \<Rightarrow> world \<Rightarrow> unit outcome" where
  "process_repository E output_dir token entry w =
     (let full_repo = str_strip entry
      in if full_repo = [] then
           Return () (logger WARNING ''Encountered empty repository entry. Skipping.'' w)
         else
           (case str_split CHR ''/'' full_repo of
              [owner, repo] \<Rightarrow>
                (let w1 = logger DEBUG
                            (''Processing repository: Owner='' @ quoted owner
                               @ '', Repo='' @ quoted repo) w
                 in case get_repo_info E owner repo token w1 of
                      Raise e w2 \<Rightarrow> Raise e w2
                    | Return repo_data w2 \<Rightarrow>
                        if \<not> truthy repo_data then
                          Return ()
                            (logger WARNING
                               (''Skipping repository '' @ quoted full_repo
                                  @ '' due to failed data retrieval.'') w2)
                        else
                          (case check_license full_repo repo_data w2 of
                             Raise e w3 \<Rightarrow> Raise e w3
                           | Return False w3 \<Rightarrow> Return () w3
                           | Return True w3 \<Rightarrow>
                               (case dict_get repo_data ''default_branch'' (JStr ''master'') of
                                  Inl e \<Rightarrow> Raise e w3
                                | Inr default_branch \<Rightarrow>
                                    (case download_readme E owner repo
                                            (format_value E default_branch) token w3 of
                                       Raise e w4 \<Rightarrow> Raise e w4
                                     | Return readme_content w4 \<Rightarrow>
                                         if readme_content = None \<or> readme_content = Some [] then
                                           Return ()
                                             (logger WARNING
                                                (''Repository '' @ quoted full_repo
                                                   @ '' does not have a README.md or it could not be downloaded.'')
                                                w4)
                                         else
                                           save_readme E (the readme_content) repo output_dir w4))))
            | _ \<Rightarrow>
                Return ()
                  (logger ERROR
                     (''Invalid repository format: '' @ quoted full_repo
                        @ ''. Expected '' @ quoted ''owner/repo'' @ ''. Skipping.'') w)))"

fun process_repositories ::
  "env \<Rightarrow> string list \<Rightarrow> string \<Rightarrow> string option \<Rightarrow> world \<Rightarrow> unit outcome" where
  "process_repositories E [] output_dir token w = Return () w"
| "process_repositories E (entry # rest) output_dir token w =
     (case process_repository E output_dir token entry w of
        Raise e w' \<Rightarrow> Raise e w'
      | Return _ w' \<Rightarrow> process_repositories E rest output_dir token w')"


fun final_world :: "'a outcome \<Rightarrow> world" where
  "final_world (Return _ w) = w"
| "final_world (Raise _ w) = w"

section \<open>A test double\<close>

text \<open>
  The empty initial state, and an environment for concrete runs: the network answers from
  a table of URLs (404 for any other URL), a directory exists once it has been created,
  \<open>os.makedirs\<close> succeeds, and every write has the given outcome.
\<close>

definition world0 :: world where
  "world0 = \<lparr>log = [], requests = [], dirs = {}, files = Map.empty\<rparr>"

definition not_found :: response where
  "not_found = \<lparr>status_code = 404, resp_text = ''Not Found'', resp_json = None\<rparr>"

definition ok_response :: "string \<Rightarrow> jvalue option \<Rightarrow> response" where
  "ok_response body doc = \<lparr>status_code = 200, resp_text = body, resp_json = doc\<rparr>"

definition test_double :: "(string \<times> http_outcome) list \<Rightarrow> write_outcome \<Rightarrow> env" where
  "test_double table wr =
     \<lparr>requests_get =
        (\<lambda>hist url hdrs. case map_of table url of Some r \<Rightarrow> r | None \<Rightarrow> Response not_found),
      path_exists = (\<lambda>w d. d \<in> dirs w),
      makedirs_error = (\<lambda>w d. None),
      write_result = (\<lambda>w p c. wr),
      py_str = (\<lambda>v. ''None'')\<rparr>"

definition hello_api :: string where
  "hello_api = ''https://api.github.com/repos/octocat/Hello-World''"

definition hello_raw :: string where
  "hello_raw = ''https://raw.githubusercontent.com/octocat/Hello-World/master/README.md''"

definition mit_doc :: "(string \<times> jvalue) list" where
  "mit_doc = [(''license'', JObj [(''name'', JStr ''MIT License'')]),
              (''default_branch'', JStr ''master'')]"

definition hello_env :: "(string \<times> jvalue) list \<Rightarrow> http_outcome \<Rightarrow> write_outcome \<Rightarrow> env" where
  \<comment> \<open>the repository \<open>octocat/Hello-World\<close>: its metadata document and the answer for its README\<close>
  "hello_env doc readme wr =
     test_double [(hello_api, Response (ok_response [] (Some (JObj doc)))), (hello_raw, readme)] wr"

section \<open>Auxiliary facts\<close>

lemma str_replace_char:
  "str_replace [a] [b] s = map (\<lambda>c. if c = a then b else c) s"
  by (induction s) simp_all

lemma length_str_split: "length (str_split sep s) = Suc (count_list s sep)"
  by (induction s) (auto split: list.splits)

lemma split_pair_nonempty:
  "str_split sep s = [a, b] \<Longrightarrow> s \<noteq> []"
  by auto

lemma save_readme_touches:
  "save_readme E content filename directory w = Return u w' \<Longrightarrow>
     p \<noteq> file_path directory filename \<Longrightarrow> files w' p = files w p"
  by (auto simp: save_readme_def logger_def Let_def
           split: if_splits option.splits write_outcome.splits)

lemmas pipeline_defs =
  process_repository_def get_repo_info_def check_license_def download_readme_def
  logger_def Let_def

lemmas fixture_defs =
  test_double_def world0_def not_found_def ok_response_def hello_api_def hello_raw_def
  mit_doc_def hello_env_def repo_api_url_def readme_raw_url_def GITHUB_API_URL_def GITHUB_RAW_URL_def
  auth_headers_def str_strip_def isspace_def quoted_def

lemma metadata_non200:
  assumes "str_split CHR ''/'' (str_strip entry) = [owner, repo]"
    and "requests_get E (requests w) (repo_api_url owner repo) (auth_headers token) = Response r"
    and "status_code r \<noteq> 200"
  shows "\<exists>m1 m2 m3 m4.
           process_repository E output_dir token entry w
             = Return () (w\<lparr>log := log w @ [(DEBUG, m1), (DEBUG, m2), (ERROR, m3), (WARNING, m4)],
                            requests := requests w @ [(repo_api_url owner repo, auth_headers token)]\<rparr>)"
proof -
  have ne: "str_strip entry \<noteq> []"
    using assms(1) by (rule split_pair_nonempty)
  show ?thesis
    apply (intro exI)
    using assms ne
    apply (simp add: pipeline_defs)
    apply ((rule world.equality; simp)?)
    done
qed

lemma metadata_transport:
  assumes "str_split CHR ''/'' (str_strip entry) = [owner, repo]"
    and "requests_get E (requests w) (repo_api_url owner repo) (auth_headers token)
           = TransportError msg"
  shows "\<exists>m1 m2.
           process_repository E output_dir token entry w
             = Raise (RequestException msg)
                 (w\<lparr>log := log w @ [(DEBUG, m1), (DEBUG, m2)],
                    requests := requests w @ [(repo_api_url owner repo, auth_headers token)]\<rparr>)"
proof -
  have ne: "str_strip entry \<noteq> []"
    using assms(1) by (rule split_pair_nonempty)
  show ?thesis
    apply (intro exI)
    using assms ne
    apply (simp add: pipeline_defs)
    apply ((rule world.equality; simp)?)
    done
qed

lemma readme_non200:
  assumes "str_split CHR ''/'' (str_strip entry) = [owner, repo]"
    and "requests_get E (requests w) (repo_api_url owner repo) (auth_headers token) = Response r"
    and "status_code r = 200"
    and "resp_json r = Some (JObj doc)"
    and "map_of doc ''license'' = Some (JObj lic)"
    and "map_of lic ''name'' = Some (JStr name)"
    and "str_lower name \<in> set ALLOWED_LICENSES"
    and "dict_get (JObj doc) ''default_branch'' (JStr ''master'') = Inr b"
    and "requests_get E (requests w @ [(repo_api_url owner repo, auth_headers token)])
           (readme_raw_url owner repo (format_value E b)) (auth_headers token) = Response r'"
    and "status_code r' \<noteq> 200"
  shows "\<exists>m1 m2 m3 m4 m5.
           process_repository E output_dir token entry w
             = Return ()
                 (w\<lparr>log := log w @ [(DEBUG, m1), (DEBUG, m2), (INFO, m3), (DEBUG, m4), (ERROR, m5),
                      (WARNING, ''Repository '' @ quoted (str_strip entry)
                         @ '' does not have a README.md or it could not be downloaded.'')],
                    requests := requests w @ [(repo_api_url owner repo, auth_headers token),
                      (readme_raw_url owner repo (format_value E b), auth_headers token)]\<rparr>)"
proof -
  have ne: "str_strip entry \<noteq> []"
    using assms(1) by (rule split_pair_nonempty)
  have d: "doc \<noteq> []" "lic \<noteq> []"
    using assms(5,6) by auto
  show ?thesis
    apply (intro exI)
    using assms ne d
    apply (simp add: pipeline_defs)
    apply ((rule world.equality; simp)?)
    done
qed

lemma readme_empty:
  assumes "str_split CHR ''/'' (str_strip entry) = [owner, repo]"
    and "requests_get E (requests w) (repo_api_url owner repo) (auth_headers token) = Response r"
    and "status_code r = 200"
    and "resp_json r = Some (JObj doc)"
    and "map_of doc ''license'' = Some (JObj lic)"
    and "map_of lic ''name'' = Some (JStr name)"
    and "str_lower name \<in> set ALLOWED_LICENSES"
    and "dict_get (JObj doc) ''default_branch'' (JStr ''master'') = Inr b"
    and "requests_get E (requests w @ [(repo_api_url owner repo, auth_headers token)])
           (readme_raw_url owner repo (format_value E b)) (auth_headers token) = Response r'"
    and "status_code r' = 200"
    and "resp_text r' = []"
  shows "\<exists>m1 m2 m3 m4 m5.
           process_repository E output_dir token entry w
             = Return ()
                 (w\<lparr>log := log w @ [(DEBUG, m1), (DEBUG, m2), (INFO, m3), (DEBUG, m4), (INFO, m5),
                      (WARNING, ''Repository '' @ quoted (str_strip entry)
                         @ '' does not have a README.md or it could not be downloaded.'')],
                    requests := requests w @ [(repo_api_url owner repo, auth_headers token),
                      (readme_raw_url owner repo (format_value E b), auth_headers token)]\<rparr>)"
proof -
  have ne: "str_strip entry \<noteq> []"
    using assms(1) by (rule split_pair_nonempty)
  have d: "doc \<noteq> []" "lic \<noteq> []"
    using assms(5,6) by auto
  show ?thesis
    apply (intro exI)
    using assms ne d
    apply (simp add: pipeline_defs)
    apply ((rule world.equality; simp)?)
    done
qed

lemma readme_transport:
  assumes "str_split CHR ''/'' (str_strip entry) = [owner, repo]"
    and "requests_get E (requests w) (repo_api_url owner repo) (auth_headers token) = Response r"
    and "status_code r = 200"
    and "resp_json r = Some (JObj doc)"
    and "map_of doc ''license'' = Some (JObj lic)"
    and "map_of lic ''name'' = Some (JStr name)"
    and "str_lower name \<in> set ALLOWED_LICENSES"
    and "dict_get (JObj doc) ''default_branch'' (JStr ''master'') = Inr b"
    and "requests_get E (requests w @ [(repo_api_url owner repo, auth_headers token)])
           (readme_raw_url owner repo (format_value E b)) (auth_headers token)
           = TransportError msg"
  shows "\<exists>m1 m2 m3 m4.
           process_repository E output_dir token entry w
             = Raise (RequestException msg)
                 (w\<lparr>log := log w @ [(DEBUG, m1), (DEBUG, m2), (INFO, m3), (DEBUG, m4)],
                    requests := requests w @ [(repo_api_url owner repo, auth_headers token),
                      (readme_raw_url owner repo (format_value E b), auth_headers token)]\<rparr>)"
proof -
  have ne: "str_strip entry \<noteq> []"
    using assms(1) by (rule split_pair_nonempty)
  have d: "doc \<noteq> []" "lic \<noteq> []"
    using assms(5,6) by auto
  show ?thesis
    apply (intro exI)
    using assms ne d
    apply (simp add: pipeline_defs)
    apply ((rule world.equality; simp)?)
    done
qed

lemma readme_fetched:
  assumes "str_split CHR ''/'' (str_strip entry) = [owner, repo]"
    and "requests_get E (requests w) (repo_api_url owner repo) (auth_headers token) = Response r"
    and "status_code r = 200"
    and "resp_json r = Some (JObj doc)"
    and "map_of doc ''license'' = Some (JObj lic)"
    and "map_of lic ''name'' = Some (JStr name)"
    and "str_lower name \<in> set ALLOWED_LICENSES"
    and "dict_get (JObj doc) ''default_branch'' (JStr ''master'') = Inr b"
    and "requests_get E (requests w @ [(repo_api_url owner repo, auth_headers token)])
           (readme_raw_url owner repo (format_value E b)) (auth_headers token) = Response r'"
    and "status_code r' = 200"
    and "resp_text r' \<noteq> []"
  shows "\<exists>m1 m2 m3 m4 m5.
           process_repository E output_dir token entry w
             = save_readme E (resp_text r') repo output_dir
                 (w\<lparr>log := log w @ [(DEBUG, m1), (DEBUG, m2), (INFO, m3), (DEBUG, m4), (INFO, m5)],
                    requests := requests w @ [(repo_api_url owner repo, auth_headers token),
                      (readme_raw_url owner repo (format_value E b), auth_headers token)]\<rparr>)"
proof -
  have ne: "str_strip entry \<noteq> []"
    using assms(1) by (rule split_pair_nonempty)
  have d: "doc \<noteq> []" "lic \<noteq> []"
    using assms(5,6) by auto
  have w: "\<And>a c. w\<lparr>requests := a, log := c\<rparr> = w\<lparr>log := c, requests := a\<rparr>"
    by (rule world.equality; simp)
  show ?thesis
    apply (intro exI)
    using assms ne d
    apply (simp add: pipeline_defs)
    apply ((simp only: w)?)
    apply ((rule refl)?)
    done
qed






lemma hello_facts:
  shows "str_split CHR ''/'' (str_strip ''octocat/Hello-World'') = [''octocat'', ''Hello-World'']"
    and "requests_get (hello_env doc readme wr) hist (repo_api_url ''octocat'' ''Hello-World'') hdrs
           = Response (ok_response [] (Some (JObj doc)))"
    and "status_code (ok_response body js) = 200"
    and "resp_json (ok_response body js) = js"
    and "resp_text (ok_response body js) = body"
    and "map_of mit_doc ''license'' = Some (JObj [(''name'', JStr ''MIT License'')])"
    and "map_of [(''name'', JStr ''MIT License'')] ''name'' = Some (JStr ''MIT License'')"
    and "dict_get (JObj mit_doc) ''default_branch'' (JStr ''master'') = Inr (JStr ''master'')"
    and "requests_get (hello_env doc readme wr) hist
           (readme_raw_url ''octocat'' ''Hello-World''
              (format_value (hello_env doc readme wr) (JStr ''master''))) hdrs
           = readme"
  by (simp_all add: fixture_defs format_value_def)

lemma mit_allowed: "str_lower ''MIT License'' \<in> set ALLOWED_LICENSES"
  by code_simp

section \<open>Properties of the pipeline\<close>

text \<open>
  C1. The claim is what the script documents (\<open>get_repo_info\<close> and \<open>download_readme\<close>
  return the result "if successful, else None") and what its other failure paths do: a
  response with another status than 200 is logged at error level and the loop goes on,
  and \<open>save_readme\<close> catches the failure of its write. For an exception raised by
  \<open>requests.get\<close> the code misses it: the call stands outside any \<open>try\<close>. Here the request
  for the first entry raises; the run ends with that exception, nothing has been logged
  at error level, and the second entry, whose requests would all succeed, is never
  processed.
\<close>

theorem transport_exception_aborts_batch:
  "process_repositories
       (test_double [(''https://api.github.com/repos/a/b'', TransportError ''connection refused''),
                     (hello_api, Response (ok_response [] (Some (JObj mit_doc)))),
                     (hello_raw, Response (ok_response ''# Hello'' None))] Written)
       [''a/b'', ''octocat/Hello-World''] ''output'' None world0
     = Raise (RequestException ''connection refused'')
         \<lparr>log = [(DEBUG, ''Processing repository: Owner='' @ quoted ''a''
                              @ '', Repo='' @ quoted ''b''),
                 (DEBUG, ''Fetching data from URL: https://api.github.com/repos/a/b'')],
          requests = [(''https://api.github.com/repos/a/b'', [])],
          dirs = {}, files = Map.empty\<rparr>"
  by (simp add: pipeline_defs fixture_defs)

text \<open>
  The same holds at every entry and for either request: when the call raises, the loop
  body raises, no entry at error level has been added, and \<open>process_repositories\<close> raises
  whatever the rest of the list holds.
\<close>

lemma transport_exception_propagates:
  assumes "str_split CHR ''/'' (str_strip entry) = [owner, repo]"
    and "requests_get E (requests w) (repo_api_url owner repo) (auth_headers token)
            = TransportError msg \<or>
          requests_get E (requests w) (repo_api_url owner repo) (auth_headers token) = Response r \<and>
          status_code r = 200 \<and> resp_json r = Some (JObj doc) \<and>
          map_of doc ''license'' = Some (JObj lic) \<and>
          map_of lic ''name'' = Some (JStr name) \<and>
          str_lower name \<in> set ALLOWED_LICENSES \<and>
          dict_get (JObj doc) ''default_branch'' (JStr ''master'') = Inr b \<and>
          requests_get E (requests w @ [(repo_api_url owner repo, auth_headers token)])
            (readme_raw_url owner repo (format_value E b)) (auth_headers token) = TransportError msg"
  shows "\<exists>w' pre.
           process_repository E output_dir token entry w = Raise (RequestException msg) w' \<and>
           log w' = log w @ pre \<and> ERROR \<notin> fst ` set pre \<and>
           files w' = files w \<and> dirs w' = dirs w \<and>
           process_repositories E (entry # rest) output_dir token w
             = Raise (RequestException msg) w'"
proof -
  from assms(2) consider
      (metadata) "requests_get E (requests w) (repo_api_url owner repo) (auth_headers token)
            = TransportError msg"
    | (readme) "requests_get E (requests w) (repo_api_url owner repo) (auth_headers token) = Response r \<and>
          status_code r = 200 \<and> resp_json r = Some (JObj doc) \<and>
          map_of doc ''license'' = Some (JObj lic) \<and>
          map_of lic ''name'' = Some (JStr name) \<and>
          str_lower name \<in> set ALLOWED_LICENSES \<and>
          dict_get (JObj doc) ''default_branch'' (JStr ''master'') = Inr b \<and>
          requests_get E (requests w @ [(repo_api_url owner repo, auth_headers token)])
            (readme_raw_url owner repo (format_value E b)) (auth_headers token) = TransportError msg"
    by blast
  then have "\<exists>w' pre.
           process_repository E output_dir token entry w = Raise (RequestException msg) w' \<and>
           log w' = log w @ pre \<and> ERROR \<notin> fst ` set pre \<and>
           files w' = files w \<and> dirs w' = dirs w"
  proof cases
    case metadata
    from metadata_transport [OF assms(1) metadata, of output_dir]
    obtain m1 m2 where eq:
      "process_repository E output_dir token entry w
         = Raise (RequestException msg)
             (w\<lparr>log := log w @ [(DEBUG, m1), (DEBUG, m2)],
                requests := requests w @ [(repo_api_url owner repo, auth_headers token)]\<rparr>)"
      by blast
    show ?thesis
      apply (rule exI)
      apply (rule exI [of _ "[(DEBUG, m1), (DEBUG, m2)]"])
      apply (simp add: eq)
      apply (rule conjI)
       apply (rule refl)
      apply simp
      done
  next
    case readme
    then have h: "requests_get E (requests w) (repo_api_url owner repo) (auth_headers token) = Response r"
      "status_code r = 200" "resp_json r = Some (JObj doc)"
      "map_of doc ''license'' = Some (JObj lic)" "map_of lic ''name'' = Some (JStr name)"
      "str_lower name \<in> set ALLOWED_LICENSES"
      "dict_get (JObj doc) ''default_branch'' (JStr ''master'') = Inr b"
      "requests_get E (requests w @ [(repo_api_url owner repo, auth_headers token)])
         (readme_raw_url owner repo (format_value E b)) (auth_headers token) = TransportError msg"
      by blast+
    from readme_transport [OF assms(1) h, of output_dir]
    obtain m1 m2 m3 m4 where eq:
      "process_repository E output_dir token entry w
         = Raise (RequestException msg)
             (w\<lparr>log := log w @ [(DEBUG, m1), (DEBUG, m2), (INFO, m3), (DEBUG, m4)],
                requests := requests w @ [(repo_api_url owner repo, auth_headers token),
                  (readme_raw_url owner repo (format_value E b), auth_headers token)]\<rparr>)"
      by blast
    show ?thesis
      apply (rule exI)
      apply (rule exI [of _ "[(DEBUG, m1), (DEBUG, m2), (INFO, m3), (DEBUG, m4)]"])
      apply (simp add: eq)
      apply (rule conjI)
       apply (rule refl)
      apply simp
      done
  qed
  then obtain w' pre where
    "process_repository E output_dir token entry w = Raise (RequestException msg) w'"
    "log w' = log w @ pre" "ERROR \<notin> fst ` set pre" "files w' = files w" "dirs w' = dirs w"
    by blast
  then show ?thesis
    by (intro exI [of _ w'] exI [of _ pre]) simp
qed

text \<open>
  The path beside it: a response with a status other than 200, to the metadata request
  or (after the license gate) to the README request, makes the loop body return without
  raising; it adds one error-level entry followed by a warning, writes no file, and the
  loop goes on with the rest of the list.
\<close>

lemma non200_skips_one_repository:
  assumes "str_split CHR ''/'' (str_strip entry) = [owner, repo]"
    and "requests_get E (requests w) (repo_api_url owner repo) (auth_headers token) = Response r"
    and "status_code r \<noteq> 200 \<or>
           status_code r = 200 \<and> resp_json r = Some (JObj doc) \<and>
          map_of doc ''license'' = Some (JObj lic) \<and>
          map_of lic ''name'' = Some (JStr name) \<and>
          str_lower name \<in> set ALLOWED_LICENSES \<and>
          dict_get (JObj doc) ''default_branch'' (JStr ''master'') = Inr b \<and>
          requests_get E (requests w @ [(repo_api_url owner repo, auth_headers token)])
            (readme_raw_url owner repo (format_value E b)) (auth_headers token) = Response r' \<and>
           status_code r' \<noteq> 200"
  shows "\<exists>w' pre m m'.
           process_repository E output_dir token entry w = Return () w' \<and>
           log w' = log w @ pre @ [(ERROR, m), (WARNING, m')] \<and>
           ERROR \<notin> fst ` set pre \<and>
           files w' = files w \<and> dirs w' = dirs w \<and>
           process_repositories E (entry # rest) output_dir token w
             = process_repositories E rest output_dir token w'"
proof -
  note meta = assms(2)
  from assms(3) consider
      (metadata) "status_code r \<noteq> 200"
    | (readme) "status_code r = 200 \<and> resp_json r = Some (JObj doc) \<and>
          map_of doc ''license'' = Some (JObj lic) \<and>
          map_of lic ''name'' = Some (JStr name) \<and>
          str_lower name \<in> set ALLOWED_LICENSES \<and>
          dict_get (JObj doc) ''default_branch'' (JStr ''master'') = Inr b \<and>
          requests_get E (requests w @ [(repo_api_url owner repo, auth_headers token)])
            (readme_raw_url owner repo (format_value E b)) (auth_headers token) = Response r' \<and>
           status_code r' \<noteq> 200"
    by blast
  then have "\<exists>w' pre m m'.
                 process_repository E output_dir token entry w = Return () w' \<and>
                 log w' = log w @ pre @ [(ERROR, m), (WARNING, m')] \<and>
                 ERROR \<notin> fst ` set pre \<and>
                 files w' = files w \<and> dirs w' = dirs w"
  proof cases
    case metadata
    from metadata_non200 [OF assms(1) meta metadata, of output_dir]
    obtain m1 m2 m3 m4 where eq:
      "process_repository E output_dir token entry w
         = Return () (w\<lparr>log := log w @ [(DEBUG, m1), (DEBUG, m2), (ERROR, m3), (WARNING, m4)],
                        requests := requests w @ [(repo_api_url owner repo, auth_headers token)]\<rparr>)"
      by blast
    show ?thesis
      apply (rule exI)
      apply (rule exI [of _ "[(DEBUG, m1), (DEBUG, m2)]"])
      apply (rule exI [of _ m3])
      apply (rule exI [of _ m4])
      apply (simp add: eq)
      apply (rule conjI)
       apply (rule refl)
      apply simp
      done
  next
    case readme
    then have h: "status_code r = 200" "resp_json r = Some (JObj doc)"
      "map_of doc ''license'' = Some (JObj lic)" "map_of lic ''name'' = Some (JStr name)"
      "str_lower name \<in> set ALLOWED_LICENSES"
      "dict_get (JObj doc) ''default_branch'' (JStr ''master'') = Inr b"
      "requests_get E (requests w @ [(repo_api_url owner repo, auth_headers token)])
         (readme_raw_url owner repo (format_value E b)) (auth_headers token) = Response r'"
      "status_code r' \<noteq> 200"
      by blast+
    from readme_non200 [OF assms(1) meta h, of output_dir]
    obtain m1 m2 m3 m4 m5 where eq:
      "process_repository E output_dir token entry w
         = Return ()
             (w\<lparr>log := log w @ [(DEBUG, m1), (DEBUG, m2), (INFO, m3), (DEBUG, m4), (ERROR, m5),
                  (WARNING, ''Repository '' @ quoted (str_strip entry)
                     @ '' does not have a README.md or it could not be downloaded.'')],
                requests := requests w @ [(repo_api_url owner repo, auth_headers token),
                  (readme_raw_url owner repo (format_value E b), auth_headers token)]\<rparr>)"
      by blast
    show ?thesis
      apply (rule exI)
      apply (rule exI [of _ "[(DEBUG, m1), (DEBUG, m2), (INFO, m3), (DEBUG, m4)]"])
      apply (rule exI [of _ m5])
      apply (rule exI)
      apply (simp add: eq)
      apply (rule conjI)
       apply (rule refl)
      apply simp
      done
  qed
  then obtain w' pre m m' where
    "process_repository E output_dir token entry w = Return () w'"
    "log w' = log w @ pre @ [(ERROR, m), (WARNING, m')]" "ERROR \<notin> fst ` set pre"
    "files w' = files w" "dirs w' = dirs w"
    by blast
  then show ?thesis
    by (intro exI [of _ w'] exI [of _ pre] exI [of _ m] exI [of _ m']) simp
qed

text \<open>
  C2. The license gate (for a metadata document whose \<open>license\<close> is a non-empty object
  with a string \<open>name\<close>) lets the repository through if and only if the lower-cased name
  is equal, as a string, to one of the three allow-listed names; otherwise it logs a
  warning and rejects. Nothing is trimmed or normalised: \<open>"MIT License "\<close> with a
  trailing space is rejected, \<open>"MIT License"\<close> is accepted.
\<close>

theorem license_gate_exact:
  assumes "map_of doc ''license'' = Some (JObj lic)"
    and "lic \<noteq> []"
    and "map_of lic ''name'' = Some (JStr name)"
  shows "check_license full_repo (JObj doc) w =
           (if str_lower name = ''mit license'' \<or> str_lower name = ''apache license 2.0''
               \<or> str_lower name = ''bsd license''
            then Return True w
            else Return False
                   (logger WARNING
                      (''Repository '' @ quoted full_repo @ '' has a license ''
                         @ quoted (str_lower name) @ '' which is not allowed. Skipping.'') w))"
  using assms by (simp add: check_license_def ALLOWED_LICENSES_def Let_def)

theorem license_gate_exact_witness:
  "check_license ''o/r'' (JObj [(''license'', JObj [(''name'', JStr ''MIT License'')])]) world0
     = Return True world0 \<and>
   check_license ''o/r'' (JObj [(''license'', JObj [(''name'', JStr ''MIT License '')])]) world0
     = Return False
         (logger WARNING
            (''Repository '' @ quoted ''o/r'' @ '' has a license ''
               @ quoted ''mit license '' @ '' which is not allowed. Skipping.'') world0)"
proof -
  have a: "str_lower ''MIT License'' = ''mit license''"
    by code_simp
  have b: "str_lower ''MIT License '' = ''mit license ''"
    by code_simp
  have "check_license ''o/r'' (JObj [(''license'', JObj [(''name'', JStr ''MIT License'')])]) world0
     = Return True world0"
    using license_gate_exact [of "[(''license'', JObj [(''name'', JStr ''MIT License'')])]"
        "[(''name'', JStr ''MIT License'')]" "''MIT License''" "''o/r''" world0]
    by (simp add: a)
  moreover have "check_license ''o/r''
       (JObj [(''license'', JObj [(''name'', JStr ''MIT License '')])]) world0
     = Return False
         (logger WARNING
            (''Repository '' @ quoted ''o/r'' @ '' has a license ''
               @ quoted ''mit license '' @ '' which is not allowed. Skipping.'') world0)"
    using license_gate_exact [of "[(''license'', JObj [(''name'', JStr ''MIT License '')])]"
        "[(''name'', JStr ''MIT License '')]" "''MIT License ''" "''o/r''" world0]
    by (simp add: b)
  ultimately show ?thesis by simp
qed

text \<open>
  C3. An entry that, once stripped, does not hold exactly one \<open>/\<close> (so it does not split
  into exactly two parts; the empty entry is one of them) is skipped: the loop body
  returns without raising, the only change to the state is one log entry (no request is
  issued, no file is written), and the loop goes on with the rest of the list.
\<close>

theorem malformed_entry_skipped:
  assumes "count_list (str_strip entry) CHR ''/'' \<noteq> 1"
  shows "\<exists>lvl msg.
           process_repository E output_dir token entry w
             = Return () (w\<lparr>log := log w @ [(lvl, msg)]\<rparr>) \<and>
           process_repositories E (entry # rest) output_dir token w
             = process_repositories E rest output_dir token (w\<lparr>log := log w @ [(lvl, msg)]\<rparr>)"
proof -
  have len: "length (str_split CHR ''/'' (str_strip entry)) \<noteq> 2"
    using assms by (simp add: length_str_split)
  have "\<exists>lvl msg. process_repository E output_dir token entry w
             = Return () (w\<lparr>log := log w @ [(lvl, msg)]\<rparr>)"
    using len
    by (auto simp: process_repository_def Let_def logger_def split: list.splits)
  then obtain lvl msg where
    "process_repository E output_dir token entry w
       = Return () (w\<lparr>log := log w @ [(lvl, msg)]\<rparr>)"
    by blast
  then show ?thesis
    by (intro exI[of _ lvl] exI[of _ msg]) simp
qed

theorem malformed_entry_skipped_witness:
  "\<exists>lvl msg.
     process_repository (test_double [] Written) ''output'' None '' a/b/c '' world0
       = Return () (world0\<lparr>log := log world0 @ [(lvl, msg)]\<rparr>) \<and>
     process_repositories (test_double [] Written) ['' a/b/c '', ''   ''] ''output'' None world0
       = process_repositories (test_double [] Written) [''   ''] ''output'' None
           (world0\<lparr>log := log world0 @ [(lvl, msg)]\<rparr>)"
proof -
  have "count_list (str_strip '' a/b/c '') CHR ''/'' \<noteq> 1"
    by (simp add: str_strip_def isspace_def)
  then show ?thesis
    by (rule malformed_entry_skipped)
qed

text \<open>
  C4. When the metadata document has no \<open>license\<close> key, the loop body returns without
  raising after exactly four log entries, the last of them the only one at warning
  level; the only request issued is the metadata request (so the README is never
  fetched), no file or directory is touched, and the loop goes on with the rest.
\<close>

theorem missing_license_skipped:
  assumes "str_split CHR ''/'' (str_strip entry) = [owner, repo]"
    and "requests_get E (requests w) (repo_api_url owner repo) (auth_headers token) = Response r"
    and "status_code r = 200"
    and "resp_json r = Some (JObj doc)"
    and "map_of doc ''license'' = None"
  shows "\<exists>m1 m2 m3 m4.
           process_repository E output_dir token entry w
             = Return () (w\<lparr>log := log w @ [(DEBUG, m1), (DEBUG, m2), (INFO, m3), (WARNING, m4)],
                            requests := requests w @ [(repo_api_url owner repo, auth_headers token)]\<rparr>) \<and>
           process_repositories E (entry # rest) output_dir token w
             = process_repositories E rest output_dir token
                 (w\<lparr>log := log w @ [(DEBUG, m1), (DEBUG, m2), (INFO, m3), (WARNING, m4)],
                    requests := requests w @ [(repo_api_url owner repo, auth_headers token)]\<rparr>)"
proof -
  have ne: "str_strip entry \<noteq> []"
    using assms(1) by (rule split_pair_nonempty)
  have "\<exists>m1 m2 m3 m4.
           process_repository E output_dir token entry w
             = Return () (w\<lparr>log := log w @ [(DEBUG, m1), (DEBUG, m2), (INFO, m3), (WARNING, m4)],
                            requests := requests w @ [(repo_api_url owner repo, auth_headers token)]\<rparr>)"
  proof (cases "doc = []")
    case True
    show ?thesis
      apply (intro exI)
      using assms ne True
      apply (simp add: pipeline_defs)
    apply ((rule world.equality; simp)?)
      done
  next
    case False
    show ?thesis
      apply (intro exI)
      using assms ne False
      apply (simp add: pipeline_defs)
    apply ((rule world.equality; simp)?)
      done
  qed
  then obtain m1 m2 m3 m4 where
    "process_repository E output_dir token entry w
       = Return () (w\<lparr>log := log w @ [(DEBUG, m1), (DEBUG, m2), (INFO, m3), (WARNING, m4)],
                      requests := requests w @ [(repo_api_url owner repo, auth_headers token)]\<rparr>)"
    by blast
  then show ?thesis
    by (intro exI[of _ m1] exI[of _ m2] exI[of _ m3] exI[of _ m4]) simp
qed

theorem missing_license_skipped_witness:
  "\<exists>m1 m2 m3 m4.
     process_repository
         (test_double [(hello_api,
            Response (ok_response [] (Some (JObj [(''default_branch'', JStr ''master'')]))))] Written)
         ''output'' None ''octocat/Hello-World'' world0
       = Return () (world0\<lparr>log := log world0 @ [(DEBUG, m1), (DEBUG, m2), (INFO, m3), (WARNING, m4)],
                      requests := requests world0 @ [(repo_api_url ''octocat'' ''Hello-World'', auth_headers None)]\<rparr>) \<and>
     process_repositories
         (test_double [(hello_api,
            Response (ok_response [] (Some (JObj [(''default_branch'', JStr ''master'')]))))] Written)
         [''octocat/Hello-World''] ''output'' None world0
       = process_repositories
         (test_double [(hello_api,
            Response (ok_response [] (Some (JObj [(''default_branch'', JStr ''master'')]))))] Written)
         [] ''output'' None
           (world0\<lparr>log := log world0 @ [(DEBUG, m1), (DEBUG, m2), (INFO, m3), (WARNING, m4)],
                      requests := requests world0 @ [(repo_api_url ''octocat'' ''Hello-World'', auth_headers None)]\<rparr>)"
proof -
  let ?E = "test_double [(hello_api,
            Response (ok_response [] (Some (JObj [(''default_branch'', JStr ''master'')]))))] Written"
  have 1: "str_split CHR ''/'' (str_strip ''octocat/Hello-World'') = [''octocat'', ''Hello-World'']"
    by (simp add: str_strip_def isspace_def)
  have 2: "requests_get ?E (requests world0) (repo_api_url ''octocat'' ''Hello-World'')
             (auth_headers None)
           = Response (ok_response [] (Some (JObj [(''default_branch'', JStr ''master'')])))"
    by (simp add: fixture_defs)
  have 3: "status_code (ok_response [] (Some (JObj [(''default_branch'', JStr ''master'')]))) = 200"
    by (simp add: ok_response_def)
  have 4: "resp_json (ok_response [] (Some (JObj [(''default_branch'', JStr ''master'')])))
             = Some (JObj [(''default_branch'', JStr ''master'')])"
    by (simp add: ok_response_def)
  have 5: "map_of [(''default_branch'', JStr ''master'')] ''license'' = None"
    by simp
  show ?thesis
    by (rule missing_license_skipped [OF 1 2 3 4 5])
qed






text \<open>
  C7. The name of the file that persistence writes is the given filename with each \<open>/\<close>
  replaced by \<open>_\<close> and every other character, at every position, left as it is, followed
  by \<open>.md\<close> and joined to the directory; \<open>save_readme\<close> changes no file but that one.
\<close>

theorem filename_sanitized:
  "length (sanitized_filename filename) = length filename \<and>
   (\<forall>i < length filename.
      sanitized_filename filename ! i
        = (if filename ! i = CHR ''/'' then CHR ''_'' else filename ! i)) \<and>
   file_path directory filename
     = os_path_join directory (sanitized_filename filename @ ''.md'') \<and>
   (\<forall>w' p. save_readme E content filename directory w = Return () w' \<longrightarrow>
        p \<noteq> file_path directory filename \<longrightarrow> files w' p = files w p)"
proof -
  have a: "sanitized_filename filename
             = map (\<lambda>c. if c = CHR ''/'' then CHR ''_'' else c) filename"
    by (simp add: sanitized_filename_def str_replace_char)
  have b: "file_path directory filename
             = os_path_join directory (sanitized_filename filename @ ''.md'')"
    by (simp add: file_path_def)
  show ?thesis
    using b by (auto simp: a dest: save_readme_touches)
qed

theorem filename_sanitized_witness:
  "length (sanitized_filename ''a/b'') = 3 \<and>
   sanitized_filename ''a/b'' ! 0 = CHR ''a'' \<and>
   sanitized_filename ''a/b'' ! 1 = CHR ''_'' \<and>
   file_path ''output'' ''a/b'' = ''output/a_b.md'' \<and>
   save_readme (test_double [] Written) ''# Hello'' ''a/b'' ''output'' world0
     = Return () \<lparr>log = [(DEBUG, ''Created directory: output''),
                           (INFO, ''README.md saved: output/a_b.md'')],
                    requests = [], dirs = {''output''},
                    files = [''output/a_b.md'' \<mapsto> ''# Hello'']\<rparr> \<and>
   files (final_world (save_readme (test_double [] Written) ''# Hello'' ''a/b'' ''output'' world0))
     ''output/a.md'' = None"
proof -
  note t = filename_sanitized [of "''a/b''" "''output''" "test_double [] Written" "''# Hello''" world0]
  have n: "sanitized_filename ''a/b'' ! 0 = CHR ''a''" "sanitized_filename ''a/b'' ! 1 = CHR ''_''"
    using t by simp_all
  have p: "file_path ''output'' ''a/b'' = ''output/a_b.md''"
    using t by (simp add: sanitized_filename_def os_path_join_def)
  have s: "save_readme (test_double [] Written) ''# Hello'' ''a/b'' ''output'' world0
     = Return () \<lparr>log = [(DEBUG, ''Created directory: output''),
                           (INFO, ''README.md saved: output/a_b.md'')],
                    requests = [], dirs = {''output''},
                    files = [''output/a_b.md'' \<mapsto> ''# Hello'']\<rparr>"
    by (simp add: save_readme_def p fixture_defs logger_def Let_def)
  have l: "length (sanitized_filename ''a/b'') = 3"
    using t by simp
  from t have q: "\<forall>w' p. save_readme (test_double [] Written) ''# Hello'' ''a/b'' ''output'' world0
                      = Return () w' \<longrightarrow>
                    p \<noteq> file_path ''output'' ''a/b'' \<longrightarrow> files w' p = files world0 p"
    by blast
  have f: "files (final_world
              (save_readme (test_double [] Written) ''# Hello'' ''a/b'' ''output'' world0))
            ''output/a.md'' = None"
  proof -
    have ne: "''output/a.md'' \<noteq> file_path ''output'' ''a/b''"
      by (simp add: p)
    have "files (final_world (Return ()
                 \<lparr>log = [(DEBUG, ''Created directory: output''),
                         (INFO, ''README.md saved: output/a_b.md'')],
                  requests = [], dirs = {''output''},
                  files = [''output/a_b.md'' \<mapsto> ''# Hello'']\<rparr>))
            ''output/a.md'' = files world0 ''output/a.md''"
      using q [rule_format, OF s ne] by simp
    then show ?thesis
      unfolding s by (simp add: world0_def)
  qed
  show ?thesis
    by (intro conjI l n p s f)
qed

text \<open>
  C8. When the metadata passes the license gate and has no \<open>default_branch\<close> key, the
  loop body neither fails nor skips the repository for that: after the metadata request
  it requests \<open>https://raw.githubusercontent.com/<owner>/<repo>/master/README.md\<close>, and what
  it does next is decided by the answer to that request. If the call raises, the loop
  body raises; a status other than 200 or an empty body is the skip with a warning; a
  body that is not empty is handed, as it is, to \<open>save_readme\<close> under the name \<open>repo\<close>.
\<close>

theorem missing_default_branch_uses_master:
  assumes "str_split CHR ''/'' (str_strip entry) = [owner, repo]"
    and "requests_get E (requests w) (''https://api.github.com/repos/'' @ owner @ ''/'' @ repo)
           (auth_headers token) = Response r"
    and "status_code r = 200"
    and "resp_json r = Some (JObj doc)"
    and "map_of doc ''license'' = Some (JObj lic)"
    and "map_of lic ''name'' = Some (JStr name)"
    and "str_lower name \<in> set ALLOWED_LICENSES"
    and "map_of doc ''default_branch'' = None"
    and "requests_get E
           (requests w @ [(''https://api.github.com/repos/'' @ owner @ ''/'' @ repo,
                           auth_headers token)])
           (''https://raw.githubusercontent.com/'' @ owner @ ''/'' @ repo @ ''/master/README.md'')
           (auth_headers token) = answer"
  shows "\<exists>m1 m2 m3 m4 m5 m6.
           process_repository E output_dir token entry w
             = (case answer of
                  TransportError msg \<Rightarrow>
                    Raise (RequestException msg)
                      (w\<lparr>log := log w @ [(DEBUG, m1), (DEBUG, m2), (INFO, m3), (DEBUG, m4)],
                         requests := requests w @
                           [(''https://api.github.com/repos/'' @ owner @ ''/'' @ repo,
                             auth_headers token),
                            (''https://raw.githubusercontent.com/'' @ owner @ ''/'' @ repo
                               @ ''/master/README.md'', auth_headers token)]\<rparr>)
                | Response r' \<Rightarrow>
                    if status_code r' \<noteq> 200 then
                      Return ()
                        (w\<lparr>log := log w @ [(DEBUG, m1), (DEBUG, m2), (INFO, m3), (DEBUG, m4),
                                           (ERROR, m5), (WARNING, m6)],
                           requests := requests w @
                             [(''https://api.github.com/repos/'' @ owner @ ''/'' @ repo,
                               auth_headers token),
                              (''https://raw.githubusercontent.com/'' @ owner @ ''/'' @ repo
                                 @ ''/master/README.md'', auth_headers token)]\<rparr>)
                    else if resp_text r' = [] then
                      Return ()
                        (w\<lparr>log := log w @ [(DEBUG, m1), (DEBUG, m2), (INFO, m3), (DEBUG, m4),
                                           (INFO, m5), (WARNING, m6)],
                           requests := requests w @
                             [(''https://api.github.com/repos/'' @ owner @ ''/'' @ repo,
                               auth_headers token),
                              (''https://raw.githubusercontent.com/'' @ owner @ ''/'' @ repo
                                 @ ''/master/README.md'', auth_headers token)]\<rparr>)
                    else
                      save_readme E (resp_text r') repo output_dir
                        (w\<lparr>log := log w @ [(DEBUG, m1), (DEBUG, m2), (INFO, m3), (DEBUG, m4),
                                           (INFO, m5)],
                           requests := requests w @
                             [(''https://api.github.com/repos/'' @ owner @ ''/'' @ repo,
                               auth_headers token),
                              (''https://raw.githubusercontent.com/'' @ owner @ ''/'' @ repo
                                 @ ''/master/README.md'', auth_headers token)]\<rparr>))"
proof -
  have a: "repo_api_url owner repo = ''https://api.github.com/repos/'' @ owner @ ''/'' @ repo"
    by (simp add: repo_api_url_def GITHUB_API_URL_def)
  have u: "readme_raw_url owner repo (format_value E (JStr ''master''))
             = ''https://raw.githubusercontent.com/'' @ owner @ ''/'' @ repo @ ''/master/README.md''"
    by (simp add: readme_raw_url_def GITHUB_RAW_URL_def format_value_def)
  have b: "dict_get (JObj doc) ''default_branch'' (JStr ''master'') = Inr (JStr ''master'')"
    using assms(8) by simp
  have meta: "requests_get E (requests w) (repo_api_url owner repo) (auth_headers token)
                = Response r"
    using assms(2) by (simp only: a)
  have ans: "requests_get E (requests w @ [(repo_api_url owner repo, auth_headers token)])
               (readme_raw_url owner repo (format_value E (JStr ''master''))) (auth_headers token)
               = answer"
    using assms(9) by (simp only: a u)
  note h = assms(1) meta assms(3-7) b
  show ?thesis
  proof (cases answer)
    case (TransportError msg)
    from readme_transport [OF h ans [unfolded TransportError], of output_dir]
    obtain m1 m2 m3 m4 where eq:
      "process_repository E output_dir token entry w
         = Raise (RequestException msg)
             (w\<lparr>log := log w @ [(DEBUG, m1), (DEBUG, m2), (INFO, m3), (DEBUG, m4)],
                requests := requests w @ [(repo_api_url owner repo, auth_headers token),
                  (readme_raw_url owner repo (format_value E (JStr ''master'')),
                   auth_headers token)]\<rparr>)"
      by blast
    show ?thesis
      apply (rule exI [of _ m1])
      apply (rule exI [of _ m2])
      apply (rule exI [of _ m3])
      apply (rule exI [of _ m4])
      apply (rule exI [of _ m1])
      apply (rule exI [of _ m1])
      apply (simp only: eq TransportError a u http_outcome.case)
      done
  next
    case (Response r')
    note resp = ans [unfolded Response]
    show ?thesis
    proof (cases "status_code r' = 200")
      case False
      from readme_non200 [OF h resp False, of output_dir]
      obtain m1 m2 m3 m4 m5 where eq:
        "process_repository E output_dir token entry w
           = Return ()
               (w\<lparr>log := log w @ [(DEBUG, m1), (DEBUG, m2), (INFO, m3), (DEBUG, m4), (ERROR, m5),
                    (WARNING, ''Repository '' @ quoted (str_strip entry)
                       @ '' does not have a README.md or it could not be downloaded.'')],
                  requests := requests w @ [(repo_api_url owner repo, auth_headers token),
                    (readme_raw_url owner repo (format_value E (JStr ''master'')),
                     auth_headers token)]\<rparr>)"
        by blast
      show ?thesis
        apply (rule exI [of _ m1])
        apply (rule exI [of _ m2])
        apply (rule exI [of _ m3])
        apply (rule exI [of _ m4])
        apply (rule exI [of _ m5])
        apply (rule exI)
        apply (simp only: eq Response a u http_outcome.case False not_False_eq_True if_True)
        done
    next
      case True
      show ?thesis
      proof (cases "resp_text r' = []")
        case empty: True
        from readme_empty [OF h resp True empty, of output_dir]
        obtain m1 m2 m3 m4 m5 where eq:
          "process_repository E output_dir token entry w
             = Return ()
                 (w\<lparr>log := log w @ [(DEBUG, m1), (DEBUG, m2), (INFO, m3), (DEBUG, m4), (INFO, m5),
                      (WARNING, ''Repository '' @ quoted (str_strip entry)
                         @ '' does not have a README.md or it could not be downloaded.'')],
                    requests := requests w @ [(repo_api_url owner repo, auth_headers token),
                      (readme_raw_url owner repo (format_value E (JStr ''master'')),
                       auth_headers token)]\<rparr>)"
          by blast
        show ?thesis
          apply (rule exI [of _ m1])
          apply (rule exI [of _ m2])
          apply (rule exI [of _ m3])
          apply (rule exI [of _ m4])
          apply (rule exI [of _ m5])
          apply (rule exI)
          apply (simp only: eq Response a u http_outcome.case True empty
                   simp_thms if_True if_False)
          done
      next
        case body: False
        from readme_fetched [OF h resp True body, of output_dir]
        obtain m1 m2 m3 m4 m5 where eq:
          "process_repository E output_dir token entry w
             = save_readme E (resp_text r') repo output_dir
                 (w\<lparr>log := log w @ [(DEBUG, m1), (DEBUG, m2), (INFO, m3), (DEBUG, m4), (INFO, m5)],
                    requests := requests w @ [(repo_api_url owner repo, auth_headers token),
                      (readme_raw_url owner repo (format_value E (JStr ''master'')),
                       auth_headers token)]\<rparr>)"
          by blast
        show ?thesis
          apply (rule exI [of _ m1])
          apply (rule exI [of _ m2])
          apply (rule exI [of _ m3])
          apply (rule exI [of _ m4])
          apply (rule exI [of _ m5])
          apply (rule exI [of _ m1])
          apply (simp only: eq Response a u http_outcome.case True body
                   simp_thms if_True if_False)
          done
      qed
    qed
  qed
qed

theorem missing_default_branch_uses_master_witness:
  "\<exists>m1 m2 m3 m4 m5.
     process_repositories
         (hello_env [(''license'', JObj [(''name'', JStr ''MIT License'')])]
            (Response (ok_response ''# Hello'' None)) Written)
         [''octocat/Hello-World''] ''output'' None world0
       = Return ()
           \<lparr>log = [(DEBUG, m1), (DEBUG, m2), (INFO, m3), (DEBUG, m4), (INFO, m5),
                   (DEBUG, ''Created directory: output''),
                   (INFO, ''README.md saved: output/Hello-World.md'')],
            requests = [(''https://api.github.com/repos/octocat/Hello-World'', []),
                        (''https://raw.githubusercontent.com/octocat/Hello-World/master/README.md'',
                         [])],
            dirs = {''output''},
            files = [''output/Hello-World.md'' \<mapsto> ''# Hello'']\<rparr>"
proof -
  let ?doc = "[(''license'', JObj [(''name'', JStr ''MIT License'')])]"
  let ?E = "hello_env ?doc (Response (ok_response ''# Hello'' None)) Written"
  have 2: "requests_get ?E (requests world0)
             (''https://api.github.com/repos/'' @ ''octocat'' @ ''/'' @ ''Hello-World'')
             (auth_headers None) = Response (ok_response [] (Some (JObj ?doc)))"
    by (simp add: fixture_defs)
  have 4: "resp_json (ok_response [] (Some (JObj ?doc))) = Some (JObj ?doc)"
    by (rule hello_facts(4))
  have 5: "map_of ?doc ''license'' = Some (JObj [(''name'', JStr ''MIT License'')])"
    by simp
  have 8: "map_of ?doc ''default_branch'' = None"
    by simp
  have 9: "requests_get ?E
             (requests world0 @ [(''https://api.github.com/repos/'' @ ''octocat'' @ ''/''
                                    @ ''Hello-World'', auth_headers None)])
             (''https://raw.githubusercontent.com/'' @ ''octocat'' @ ''/'' @ ''Hello-World''
                @ ''/master/README.md'')
             (auth_headers None) = Response (ok_response ''# Hello'' None)"
    by (simp add: fixture_defs)
  from missing_default_branch_uses_master
         [OF hello_facts(1) 2 hello_facts(3) 4 5 hello_facts(7) mit_allowed 8 9,
          where output_dir = "''output''"]
  obtain m1 m2 m3 m4 m5 where eq:
    "process_repository ?E ''output'' None ''octocat/Hello-World'' world0
       = save_readme ?E ''# Hello'' ''Hello-World'' ''output''
           (world0\<lparr>log := log world0 @ [(DEBUG, m1), (DEBUG, m2), (INFO, m3), (DEBUG, m4), (INFO, m5)],
              requests := requests world0 @
                [(''https://api.github.com/repos/octocat/Hello-World'', auth_headers None),
                 (''https://raw.githubusercontent.com/octocat/Hello-World/master/README.md'',
                  auth_headers None)]\<rparr>)"
    by (auto simp: ok_response_def)
  have sv:
    "save_readme ?E ''# Hello'' ''Hello-World'' ''output''
           (world0\<lparr>log := log world0 @ [(DEBUG, m1), (DEBUG, m2), (INFO, m3), (DEBUG, m4), (INFO, m5)],
              requests := requests world0 @
                [(''https://api.github.com/repos/octocat/Hello-World'', auth_headers None),
                 (''https://raw.githubusercontent.com/octocat/Hello-World/master/README.md'',
                  auth_headers None)]\<rparr>)
       = Return ()
           \<lparr>log = [(DEBUG, m1), (DEBUG, m2), (INFO, m3), (DEBUG, m4), (INFO, m5),
                   (DEBUG, ''Created directory: output''),
                   (INFO, ''README.md saved: output/Hello-World.md'')],
            requests = [(''https://api.github.com/repos/octocat/Hello-World'', []),
                        (''https://raw.githubusercontent.com/octocat/Hello-World/master/README.md'',
                         [])],
            dirs = {''output''},
            files = [''output/Hello-World.md'' \<mapsto> ''# Hello'']\<rparr>"
    by (simp add: save_readme_def file_path_def sanitized_filename_def os_path_join_def
          logger_def Let_def fixture_defs)
  show ?thesis
    apply (rule exI [of _ m1])
    apply (rule exI [of _ m2])
    apply (rule exI [of _ m3])
    apply (rule exI [of _ m4])
    apply (rule exI [of _ m5])
    apply (simp only: process_repositories.simps eq sv outcome.case)
    done
qed

text \<open>
  C9. When the README request is answered with status 200 and an empty body, the loop
  body logs the warning that the README is missing or could not be downloaded, returns
  without raising and writes no file, and the loop goes on. In an environment \<open>E'\<close> that
  differs only in answering the README request with a status other than 200, the
  outcome is the same state but for one log entry: the entry of \<open>download_readme\<close>
  itself, at info level here and at error level there.
\<close>

theorem empty_readme_treated_as_unavailable:
  assumes "str_split CHR ''/'' (str_strip entry) = [owner, repo]"
    and "requests_get E (requests w) (repo_api_url owner repo) (auth_headers token) = Response r"
    and "status_code r = 200"
    and "resp_json r = Some (JObj doc)"
    and "map_of doc ''license'' = Some (JObj lic)"
    and "map_of lic ''name'' = Some (JStr name)"
    and "str_lower name \<in> set ALLOWED_LICENSES"
    and "dict_get (JObj doc) ''default_branch'' (JStr ''master'') = Inr b"
    and "requests_get E (requests w @ [(repo_api_url owner repo, auth_headers token)])
           (readme_raw_url owner repo (format_value E b)) (auth_headers token) = Response r'"
    and "status_code r' = 200"
    and "resp_text r' = []"
    and "requests_get E' (requests w) (repo_api_url owner repo) (auth_headers token) = Response r"
    and "format_value E' b = format_value E b"
    and "requests_get E' (requests w @ [(repo_api_url owner repo, auth_headers token)])
           (readme_raw_url owner repo (format_value E b)) (auth_headers token) = Response r''"
    and "status_code r'' \<noteq> 200"
  shows "\<exists>m1 m2 m3 m4 m5 m5'.
           process_repository E output_dir token entry w
             = Return ()
                 (w\<lparr>log := log w @ [(DEBUG, m1), (DEBUG, m2), (INFO, m3), (DEBUG, m4), (INFO, m5),
                      (WARNING, ''Repository '' @ quoted (str_strip entry)
                         @ '' does not have a README.md or it could not be downloaded.'')],
                    requests := requests w @ [(repo_api_url owner repo, auth_headers token),
                      (readme_raw_url owner repo (format_value E b), auth_headers token)]\<rparr>) \<and>
           process_repositories E (entry # rest) output_dir token w
             = process_repositories E rest output_dir token
                 (w\<lparr>log := log w @ [(DEBUG, m1), (DEBUG, m2), (INFO, m3), (DEBUG, m4), (INFO, m5),
                      (WARNING, ''Repository '' @ quoted (str_strip entry)
                         @ '' does not have a README.md or it could not be downloaded.'')],
                    requests := requests w @ [(repo_api_url owner repo, auth_headers token),
                      (readme_raw_url owner repo (format_value E b), auth_headers token)]\<rparr>) \<and>
           process_repository E' output_dir token entry w
             = Return ()
                 (w\<lparr>log := log w @ [(DEBUG, m1), (DEBUG, m2), (INFO, m3), (DEBUG, m4), (ERROR, m5'),
                      (WARNING, ''Repository '' @ quoted (str_strip entry)
                         @ '' does not have a README.md or it could not be downloaded.'')],
                    requests := requests w @ [(repo_api_url owner repo, auth_headers token),
                      (readme_raw_url owner repo (format_value E b), auth_headers token)]\<rparr>)"
proof -
  have ne: "str_strip entry \<noteq> []"
    using assms(1) by (rule split_pair_nonempty)
  have d: "doc \<noteq> []" "lic \<noteq> []"
    using assms(5,6) by auto
  have 1: "process_repository E output_dir token entry w
             = Return ()
                 (w\<lparr>log := log w @ [
                      (DEBUG, ''Processing repository: Owner='' @ quoted owner
                                @ '', Repo='' @ quoted repo),
                      (DEBUG, ''Fetching data from URL: '' @ repo_api_url owner repo),
                      (INFO, ''Successfully fetched data for repository: '' @ owner @ ''/'' @ repo),
                      (DEBUG, ''Downloading README.md from URL: ''
                                @ readme_raw_url owner repo (format_value E b)),
                      (INFO, ''Successfully downloaded README.md for repository: ''
                               @ owner @ ''/'' @ repo),
                      (WARNING, ''Repository '' @ quoted (str_strip entry)
                         @ '' does not have a README.md or it could not be downloaded.'')],
                    requests := requests w @ [(repo_api_url owner repo, auth_headers token),
                      (readme_raw_url owner repo (format_value E b), auth_headers token)]\<rparr>)"
    using assms(1-11) ne d
    apply (simp add: pipeline_defs)
    apply ((rule world.equality; simp)?)
    done
  have 2: "process_repository E' output_dir token entry w
             = Return ()
                 (w\<lparr>log := log w @ [
                      (DEBUG, ''Processing repository: Owner='' @ quoted owner
                                @ '', Repo='' @ quoted repo),
                      (DEBUG, ''Fetching data from URL: '' @ repo_api_url owner repo),
                      (INFO, ''Successfully fetched data for repository: '' @ owner @ ''/'' @ repo),
                      (DEBUG, ''Downloading README.md from URL: ''
                                @ readme_raw_url owner repo (format_value E b)),
                      (ERROR, ''Failed to download README.md for repository: '' @ owner @ ''/'' @ repo
                                @ ''. Status Code: '' @ str_int (status_code r'')),
                      (WARNING, ''Repository '' @ quoted (str_strip entry)
                         @ '' does not have a README.md or it could not be downloaded.'')],
                    requests := requests w @ [(repo_api_url owner repo, auth_headers token),
                      (readme_raw_url owner repo (format_value E b), auth_headers token)]\<rparr>)"
    using assms(1,3-8,12-15) ne d
    apply (simp add: pipeline_defs)
    apply ((rule world.equality; simp)?)
    done
  show ?thesis
    apply (intro exI conjI)
      apply (rule 1)
     apply (simp add: 1)
    apply (rule 2)
    done
qed

theorem empty_readme_treated_as_unavailable_witness:
  "\<exists>m1 m2 m3 m4 m5 m5'.
     process_repository (hello_env mit_doc (Response (ok_response [] None)) Written)
         ''output'' None ''octocat/Hello-World'' world0
       = Return ()
           (world0\<lparr>log := log world0 @ [(DEBUG, m1), (DEBUG, m2), (INFO, m3), (DEBUG, m4), (INFO, m5),
                (WARNING, ''Repository '' @ quoted (str_strip ''octocat/Hello-World'')
                   @ '' does not have a README.md or it could not be downloaded.'')],
              requests := requests world0
                @ [(repo_api_url ''octocat'' ''Hello-World'', auth_headers None),
                   (readme_raw_url ''octocat'' ''Hello-World''
                      (format_value (hello_env mit_doc (Response (ok_response [] None)) Written)
                         (JStr ''master'')),
                    auth_headers None)]\<rparr>) \<and>
     process_repositories (hello_env mit_doc (Response (ok_response [] None)) Written)
         [''octocat/Hello-World'', ''a/b''] ''output'' None world0
       = process_repositories (hello_env mit_doc (Response (ok_response [] None)) Written)
           [''a/b''] ''output'' None
           (world0\<lparr>log := log world0 @ [(DEBUG, m1), (DEBUG, m2), (INFO, m3), (DEBUG, m4), (INFO, m5),
                (WARNING, ''Repository '' @ quoted (str_strip ''octocat/Hello-World'')
                   @ '' does not have a README.md or it could not be downloaded.'')],
              requests := requests world0
                @ [(repo_api_url ''octocat'' ''Hello-World'', auth_headers None),
                   (readme_raw_url ''octocat'' ''Hello-World''
                      (format_value (hello_env mit_doc (Response (ok_response [] None)) Written)
                         (JStr ''master'')),
                    auth_headers None)]\<rparr>) \<and>
     process_repository (hello_env mit_doc (Response not_found) Written)
         ''output'' None ''octocat/Hello-World'' world0
       = Return ()
           (world0\<lparr>log := log world0 @ [(DEBUG, m1), (DEBUG, m2), (INFO, m3), (DEBUG, m4), (ERROR, m5'),
                (WARNING, ''Repository '' @ quoted (str_strip ''octocat/Hello-World'')
                   @ '' does not have a README.md or it could not be downloaded.'')],
              requests := requests world0
                @ [(repo_api_url ''octocat'' ''Hello-World'', auth_headers None),
                   (readme_raw_url ''octocat'' ''Hello-World''
                      (format_value (hello_env mit_doc (Response (ok_response [] None)) Written)
                         (JStr ''master'')),
                    auth_headers None)]\<rparr>)"
proof -
  let ?E = "hello_env mit_doc (Response (ok_response [] None)) Written"
  let ?E' = "hello_env mit_doc (Response not_found) Written"
  have f: "format_value ?E' (JStr ''master'') = format_value ?E (JStr ''master'')"
    by (simp add: format_value_def)
  have 9: "requests_get ?E' (requests world0 @ [(repo_api_url ''octocat'' ''Hello-World'', auth_headers None)])
           (readme_raw_url ''octocat'' ''Hello-World'' (format_value ?E (JStr ''master'')))
           (auth_headers None) = Response not_found"
    using hello_facts(9) [of mit_doc "Response not_found" Written] by (simp add: format_value_def)
  have n: "status_code not_found \<noteq> 200"
    by (simp add: not_found_def)
  show ?thesis
    by (rule empty_readme_treated_as_unavailable
          [OF hello_facts(1) hello_facts(2) hello_facts(3) hello_facts(4) hello_facts(6)
              hello_facts(7) mit_allowed hello_facts(8) hello_facts(9) hello_facts(3)
              hello_facts(5) hello_facts(2) f 9 n])
qed




end
